theory Spec2Isabelle
  imports Main
begin

section \<open>Data model\<close>

text \<open>
  Primary keys are UUIDs in the source; they are modelled as natural numbers.
  A \<open>Date\<close> is its number of milliseconds since the epoch.
\<close>

type_synonym uuid = nat
type_synonym time = int

text \<open>The three ENUM columns of \<open>models/Notification\<close>.\<close>

datatype recipient_type = Manager | Facilitator

datatype notification_type = Reminder | Alert | Submission | Deadline

datatype entity_type = Allocation | Activity_tracker

text \<open>
  The JSON column \<open>metadata\<close>: an object of string keys. A key whose value is
  \<open>undefined\<close> is not stored.
\<close>

datatype json = JId uuid | JStr string | JNum int

type_synonym metadata = "(string \<times> json) list"

text \<open>
  The \<open>message\<close> column is filled from three template literals of
  \<open>services/notificationService.js\<close>; a message is the template with its arguments:
  \<^item> \<open>ReminderMessage a\<close>: "Please submit your activity log for allocation a. Deadline is approaching."
  \<^item> \<open>SubmissionMessage f m\<close>: "f has submitted activity log for m"
  \<^item> \<open>DeadlineMessage f m\<close>: "Facilitator f has not submitted activity log for m. Deadline passed."
\<close>

datatype message_text =
    ReminderMessage uuid
  | SubmissionMessage string string
  | DeadlineMessage string string

text \<open>
  A row of table \<open>notifications\<close>. \<open>isRead\<close> and \<open>isDelivered\<close> default to false,
  the nullable columns to null (\<open>None\<close>); \<open>timestamps: true\<close> adds \<open>createdAt\<close>
  and \<open>updatedAt\<close>, which the ORM stamps on insert and on every update.
\<close>

record notification =
  nid :: uuid
  recipientId :: uuid
  recipientType :: recipient_type
  ntype :: notification_type
  title :: string
  message :: message_text
  relatedEntityId :: "uuid option"
  relatedEntityType :: "entity_type option"
  isRead :: bool
  isDelivered :: bool
  scheduledFor :: "time option"
  deliveredAt :: "time option"
  readAt :: "time option"
  metadata :: metadata
  createdAt :: time
  updatedAt :: time

text \<open>The columns of the collaborator tables that the notification code reads.\<close>

record module_row =
  mod_id :: uuid
  mod_name :: string

record manager_row =
  m_id :: uuid
  m_name :: string
  m_email :: string

record facilitator_row =
  f_id :: uuid
  f_name :: string
  f_email :: string
  f_managerId :: "uuid option"

record allocation =
  a_id :: uuid
  a_moduleId :: uuid
  a_facilitatorId :: uuid
  a_isActive :: bool
  a_createdAt :: time

record activity_log =
  l_id :: uuid
  l_allocationId :: uuid
  l_weekNumber :: int
  l_isActive :: bool

text \<open>
  A dispatch intent: the object that \<open>checkOverdueLogs\<close> serialises onto the Redis
  list \<open>notifications\<close> and the worker parses back.
\<close>

record intent =
  i_type :: string
  i_facilitatorId :: uuid
  i_facilitatorName :: "string option"
  i_allocationId :: uuid
  i_weekNumber :: int
  i_timestamp :: time

text \<open>
  The four entries of \<open>emailTemplates\<close>. A mail is its recipient, its subject, and
  its HTML body as the template with the three values the body interpolates
  (\<open>facilitatorName\<close>, which an intent may lack, \<open>moduleName\<close>, \<open>weekNumber\<close>).
\<close>

datatype template = activityLogCreated | activityLogUpdated | reminderFacilitator | alertManager

record mail =
  mail_to :: string
  mail_subject :: string
  mail_html :: "template \<times> string option \<times> string \<times> int"

datatype level = LOG | WARN | ERROR

text \<open>
  The state the code runs against: the database tables, the Redis list (its head is the
  left end, where \<open>lpush\<close> inserts; \<open>rpop\<close> takes the last element), the mails the
  transport accepted, the console, and the interval timers of the event loop.
\<close>

record world =
  allocations :: "allocation list"
  activityLogs :: "activity_log list"
  facilitators :: "facilitator_row list"
  managers :: "manager_row list"
  modules :: "module_row list"
  notifications :: "notification list"
  nextUuid :: uuid
  queue :: "intent list"
  outbox :: "mail list"
  console :: "(level \<times> string) list"
  timers :: "nat list"
  nextTimer :: nat

datatype error = TypeError string

definition console_log :: "level \<Rightarrow> string \<Rightarrow> world \<Rightarrow> world" where
  "console_log lv msg s = s\<lparr>console := console s @ [(lv, msg)]\<rparr>"

section \<open>The Ledger: \<open>services/notificationService.js\<close>\<close>

text \<open>
  The service and the routes take the model from the models' index,
  \<open>const { Notification, ... } = require('../models')\<close>. These are the names that
  \<open>models/index.js\<close> exports.
\<close>

definition models_index :: "string list" where
  "models_index =
     [''Manager'', ''Module'', ''Cohort'', ''Class'', ''Student'', ''Facilitator'', ''Mode'',
      ''CourseAllocation'', ''ActivityTracker'']"

text \<open>
  \<open>Notification\<close> is not among them, and no file requires \<open>models/Notification\<close>
  itself. So the binding \<open>Notification\<close> is \<open>undefined\<close> in the service and in the
  routes, and a static call \<open>Notification.m(...)\<close> throws
  "TypeError: Cannot read properties of undefined (reading 'm')" before it reaches the ORM.
\<close>

definition undefined_call :: "string \<Rightarrow> error" where
  "undefined_call m = TypeError m"

text \<open>The argument object of \<open>NotificationService.createNotification\<close>.\<close>

record notification_spec =
  s_recipientId :: uuid
  s_recipientType :: recipient_type
  s_type :: notification_type
  s_title :: string
  s_message :: message_text
  s_relatedEntityId :: "uuid option"
  s_relatedEntityType :: "entity_type option"
  s_scheduledFor :: "time option"
  s_metadata :: metadata

text \<open>
  A number of the runtime, as far as the code needs it: an integer that a double holds
  exactly, or the double nearest to an integer beyond \<open>2^53\<close>.
\<close>

datatype js_number = JsInt int | JsRounded int

text \<open>
  The four static calls of the code, \<open>Notification.create(values)\<close>,
  \<open>Notification.update(values, {where})\<close>,
  \<open>Notification.findAll({where, order, limit, offset})\<close> and
  \<open>Notification.count({where})\<close>, on the binding of this repository: the result, and the
  store, which the call does not reach.
\<close>

definition Notification_create ::
  "time \<Rightarrow> notification_spec \<Rightarrow> world \<Rightarrow> (error + notification) \<times> world" where
  "Notification_create now sp s = (Inl (undefined_call ''create''), s)"

definition Notification_update ::
  "(notification \<Rightarrow> notification) \<Rightarrow> (notification \<Rightarrow> bool) \<Rightarrow> world \<Rightarrow> (error + nat) \<times> world" where
  "Notification_update values wh s = (Inl (undefined_call ''update''), s)"

definition Notification_findAll ::
  "(notification \<Rightarrow> bool) \<Rightarrow> js_number \<Rightarrow> js_number \<Rightarrow> world \<Rightarrow> error + notification list" where
  "Notification_findAll wh limit offset s = Inl (undefined_call ''findAll'')"

definition Notification_count :: "(notification \<Rightarrow> bool) \<Rightarrow> world \<Rightarrow> error + nat" where
  "Notification_count wh s = Inl (undefined_call ''count'')"

text \<open>\<open>NotificationService.markAsRead(notificationId, userId)\<close>, called at time \<open>now\<close>.\<close>

definition markAsRead :: "time \<Rightarrow> uuid \<Rightarrow> uuid \<Rightarrow> world \<Rightarrow> (error + nat) \<times> world" where
  "markAsRead now notificationId userId s =
     Notification_update
       (\<lambda>r. r\<lparr>isRead := True, readAt := Some now, updatedAt := now\<rparr>)
       (\<lambda>r. nid r = notificationId \<and> recipientId r = userId) s"

text \<open>\<open>NotificationService.markAsDelivered(notificationId)\<close>, called at time \<open>now\<close>.\<close>

definition markAsDelivered :: "time \<Rightarrow> uuid \<Rightarrow> world \<Rightarrow> (error + nat) \<times> world" where
  "markAsDelivered now notificationId s =
     Notification_update
       (\<lambda>r. r\<lparr>isDelivered := True, deliveredAt := Some now, updatedAt := now\<rparr>)
       (\<lambda>r. nid r = notificationId) s"

text \<open>\<open>NotificationService.getUnreadCount(userId, userType)\<close>.\<close>

definition getUnreadCount :: "uuid \<Rightarrow> recipient_type \<Rightarrow> world \<Rightarrow> error + nat" where
  "getUnreadCount userId userType s =
     Notification_count
       (\<lambda>r. recipientId r = userId \<and> recipientType r = userType \<and> isRead r = False) s"

text \<open>\<open>if (unreadOnly)\<close> on the query string: every non-empty string is truthy.\<close>

definition truthy :: "string option \<Rightarrow> bool" where
  "truthy q = (case q of None \<Rightarrow> False | Some v \<Rightarrow> v \<noteq> [])"

text \<open>
  \<open>NotificationService.getUserNotifications\<close>: the where clause selects the rows of the
  recipient, the unread ones only when \<open>unreadOnly\<close> is truthy.
\<close>

definition getUserNotifications ::
  "uuid \<Rightarrow> recipient_type \<Rightarrow> js_number \<Rightarrow> js_number \<Rightarrow> string option \<Rightarrow> world \<Rightarrow> error + notification list" where
  "getUserNotifications userId userType limit offset unreadOnly s =
     Notification_findAll
       (\<lambda>r. recipientId r = userId \<and> recipientType r = userType \<and>
            (if truthy unreadOnly then isRead r = False else True))
       limit offset s"

section \<open>The routes: \<open>routes/notifications.js\<close>\<close>

text \<open>\<open>req.user\<close>, as the authentication middleware supplies it.\<close>

record user =
  user_id :: uuid
  user_role :: recipient_type

text \<open>
  The handler of \<open>PUT /read-all\<close>, called at time \<open>now\<close>. It takes \<open>Notification\<close>
  from \<open>require('../models')\<close> itself. Its body is one \<open>try\<close> block whose
  \<open>catch\<close> logs and answers 500; otherwise it answers 200 with the number of rows.
\<close>

datatype put_read_all_response = AllMarked_200 nat | AllFailed_500

definition put_read_all :: "time \<Rightarrow> user \<Rightarrow> world \<Rightarrow> put_read_all_response \<times> world" where
  "put_read_all now u s =
     (case Notification_update
             (\<lambda>r. r\<lparr>isRead := True, readAt := Some now, updatedAt := now\<rparr>)
             (\<lambda>r. recipientId r = user_id u \<and> recipientType r = user_role u \<and> isRead r = False) s of
        (Inl e, s') \<Rightarrow>
          (AllFailed_500, console_log ERROR ''Failed to mark all notifications as read'' s')
      | (Inr n, s') \<Rightarrow> (AllMarked_200 n, s'))"

datatype put_read_response = NotFound_404 | Marked_200 | ReadFailed_500

text \<open>
  The handler of \<open>PUT /:id/read\<close> for a path parameter that is a UUID: 404 with
  "Notification not found or already read" when the update selected no row, 500 from the
  \<open>catch\<close>.
\<close>

definition put_read :: "time \<Rightarrow> uuid \<Rightarrow> user \<Rightarrow> world \<Rightarrow> put_read_response \<times> world" where
  "put_read now ident u s =
     (case markAsRead now ident (user_id u) s of
        (Inl e, s') \<Rightarrow> (ReadFailed_500, console_log ERROR ''Failed to mark notification as read'' s')
      | (Inr result, s') \<Rightarrow> (if result = 0 then NotFound_404 else Marked_200, s'))"

subsection \<open>\<open>GET /\<close>: the listing\<close>

text \<open>
  A value of \<open>req.query\<close>: absent, a string that is not an integer literal, or the
  integer literal of a number.
\<close>

datatype query_value = Absent | NotInt | IntLit int

record get_query =
  q_limit :: query_value
  q_offset :: query_value
  q_unreadOnly :: "string option"

text \<open>
  The three validators of the route: \<open>optional().isInt({min: 1, max: 100})\<close>,
  \<open>optional().isInt({min: 0})\<close> and \<open>optional().isBoolean()\<close>.
\<close>

definition limit_valid :: "query_value \<Rightarrow> bool" where
  "limit_valid q = (case q of Absent \<Rightarrow> True | NotInt \<Rightarrow> False | IntLit n \<Rightarrow> 1 \<le> n \<and> n \<le> 100)"

definition offset_valid :: "query_value \<Rightarrow> bool" where
  "offset_valid q = (case q of Absent \<Rightarrow> True | NotInt \<Rightarrow> False | IntLit n \<Rightarrow> 0 \<le> n)"

definition unreadOnly_valid :: "string option \<Rightarrow> bool" where
  "unreadOnly_valid q =
     (case q of None \<Rightarrow> True | Some v \<Rightarrow> v = ''true'' \<or> v = ''false'' \<or> v = ''1'' \<or> v = ''0'')"

text \<open>
  \<open>parseInt\<close> of a query value that passed \<open>isInt\<close>, with the handler's default:
  the result is a double, which holds the integer itself up to \<open>2^53\<close> in absolute value.
\<close>

definition parseInt_or :: "int \<Rightarrow> query_value \<Rightarrow> js_number" where
  "parseInt_or d q =
     (case q of
        IntLit n \<Rightarrow> if abs n \<le> 2 ^ 53 then JsInt n else JsRounded n
      | _ \<Rightarrow> JsInt d)"

record pagination =
  p_limit :: js_number
  p_offset :: js_number
  p_total :: nat
  p_unreadCount :: nat

datatype get_response =
    Validation_400
  | Listing_200 "notification list" pagination
  | ListingFailed_500

text \<open>
  The handler of \<open>GET /\<close> behind its validators: a request that fails one of them is
  answered by \<open>validateRequest\<close>; the body of the handler is one \<open>try\<close> block whose
  \<open>catch\<close> logs and answers 500.
\<close>

definition get_notifications :: "get_query \<Rightarrow> user \<Rightarrow> world \<Rightarrow> get_response \<times> world" where
  "get_notifications q u s =
     (if \<not> (limit_valid (q_limit q) \<and> offset_valid (q_offset q) \<and> unreadOnly_valid (q_unreadOnly q))
      then (Validation_400, s)
      else
        (let limit = parseInt_or 50 (q_limit q); offset = parseInt_or 0 (q_offset q)
         in case getUserNotifications (user_id u) (user_role u) limit offset (q_unreadOnly q) s of
              Inl e \<Rightarrow> (ListingFailed_500, console_log ERROR ''Failed to get notifications'' s)
            | Inr rows \<Rightarrow>
               (case getUnreadCount (user_id u) (user_role u) s of
                  Inl e \<Rightarrow> (ListingFailed_500, console_log ERROR ''Failed to get notifications'' s)
                | Inr unreadCount \<Rightarrow>
                    (Listing_200 rows
                       \<lparr>p_limit = limit, p_offset = offset, p_total = length rows,
                        p_unreadCount = unreadCount\<rparr>, s))))"

section \<open>Creating notifications\<close>

text \<open>
  \<open>NotificationService.createNotification\<close>: the \<open>catch\<close> logs the exception of
  \<open>Notification.create\<close> and throws it again.
\<close>

definition createNotification ::
  "time \<Rightarrow> notification_spec \<Rightarrow> world \<Rightarrow> (error + notification) \<times> world" where
  "createNotification now sp s =
     (case Notification_create now sp s of
        (Inl e, s') \<Rightarrow> (Inl e, console_log ERROR ''Failed to create notification'' s')
      | (Inr n, s') \<Rightarrow> (Inr n, console_log LOG ''Notification created'' s'))"

text \<open>The eager-loaded associations \<open>allocation.module\<close> and \<open>allocation.facilitator\<close>.\<close>

definition allocation_module :: "world \<Rightarrow> allocation \<Rightarrow> module_row option" where
  "allocation_module s a = find (\<lambda>m. mod_id m = a_moduleId a) (modules s)"

definition allocation_facilitator :: "world \<Rightarrow> allocation \<Rightarrow> facilitator_row option" where
  "allocation_facilitator s a = find (\<lambda>f. f_id f = a_facilitatorId a) (facilitators s)"

text \<open>\<open>allocation.getActivityLogs()\<close>: every log of the allocation.\<close>

definition getActivityLogs :: "world \<Rightarrow> allocation \<Rightarrow> activity_log list" where
  "getActivityLogs s a = filter (\<lambda>l. l_allocationId l = a_id a) (activityLogs s)"

definition reminder_spec :: "world \<Rightarrow> allocation \<Rightarrow> notification_spec" where
  "reminder_spec s a =
     \<lparr>s_recipientId = a_facilitatorId a,
      s_recipientType = Facilitator,
      s_type = Reminder,
      s_title = ''Activity Log Reminder'',
      s_message = ReminderMessage (a_id a),
      s_relatedEntityId = Some (a_id a),
      s_relatedEntityType = Some Allocation,
      s_scheduledFor = None,
      s_metadata =
        [(''allocationId'', JId (a_id a))] @
        (case allocation_module s a of None \<Rightarrow> [] | Some m \<Rightarrow> [(''moduleName'', JStr (mod_name m))]) @
        (case allocation_facilitator s a of None \<Rightarrow> []
         | Some f \<Rightarrow> [(''facilitatorName'', JStr (f_name f))])\<rparr>"

text \<open>
  \<open>NotificationService.sendReminderToFacilitators\<close>: the loop, with the reminders so
  far. It has no handler of its own, so an exception of \<open>createNotification\<close> leaves it.
\<close>

fun sendReminderToFacilitators ::
  "time \<Rightarrow> allocation list \<Rightarrow> notification list \<Rightarrow> world \<Rightarrow> (error + notification list) \<times> world" where
  "sendReminderToFacilitators now [] reminders s = (Inr reminders, s)"
| "sendReminderToFacilitators now (a # rest) reminders s =
     (if getActivityLogs s a = [] then
        (case createNotification now (reminder_spec s a) s of
           (Inl e, s') \<Rightarrow> (Inl e, s')
         | (Inr reminder, s') \<Rightarrow> sendReminderToFacilitators now rest (reminders @ [reminder]) s')
      else sendReminderToFacilitators now rest reminders s)"

text \<open>
  \<open>allocation.getFacilitator().then(f => f.getManager())\<close>, then the argument object of
  the alert: reading a property of \<open>null\<close> throws a TypeError.
\<close>

definition deadline_spec :: "world \<Rightarrow> allocation \<Rightarrow> error + notification_spec" where
  "deadline_spec s a =
     (case find (\<lambda>f. f_id f = a_facilitatorId a) (facilitators s) of
        None \<Rightarrow> Inl (TypeError ''getManager'')
      | Some f \<Rightarrow>
         (case (case f_managerId f of None \<Rightarrow> None
                | Some m \<Rightarrow> find (\<lambda>r. m_id r = m) (managers s)) of
            None \<Rightarrow> Inl (TypeError ''id'')
          | Some manager \<Rightarrow>
             (case allocation_facilitator s a of
                None \<Rightarrow> Inl (TypeError ''name'')
              | Some af \<Rightarrow>
                 (case allocation_module s a of
                    None \<Rightarrow> Inl (TypeError ''name'')
                  | Some am \<Rightarrow>
                      Inr \<lparr>s_recipientId = m_id manager,
                           s_recipientType = Manager,
                           s_type = Deadline,
                           s_title = ''Deadline Alert'',
                           s_message = DeadlineMessage (f_name af) (mod_name am),
                           s_relatedEntityId = Some (a_id a),
                           s_relatedEntityType = Some Allocation,
                           s_scheduledFor = None,
                           s_metadata =
                             [(''facilitatorName'', JStr (f_name af)),
                              (''moduleName'', JStr (mod_name am)),
                              (''allocationId'', JId (a_id a))]\<rparr>))))"

text \<open>
  \<open>NotificationService.sendDeadlineAlertToManagers\<close>: the loop has no handler of its
  own, so the first exception, of the lookups or of \<open>createNotification\<close>, leaves it.
\<close>

fun sendDeadlineAlertToManagers ::
  "time \<Rightarrow> allocation list \<Rightarrow> notification list \<Rightarrow> world \<Rightarrow> (error + notification list) \<times> world" where
  "sendDeadlineAlertToManagers now [] alerts s = (Inr alerts, s)"
| "sendDeadlineAlertToManagers now (a # rest) alerts s =
     (case deadline_spec s a of
        Inl e \<Rightarrow> (Inl e, s)
      | Inr sp \<Rightarrow>
         (case createNotification now sp s of
            (Inl e, s') \<Rightarrow> (Inl e, s')
          | (Inr alert, s') \<Rightarrow> sendDeadlineAlertToManagers now rest (alerts @ [alert]) s'))"

section \<open>The database worker: \<open>NotificationWorker\<close>\<close>

definition activeAllocations :: "world \<Rightarrow> allocation list" where
  "activeAllocations s = filter a_isActive (allocations s)"

definition facilitatorsWithoutLogs :: "world \<Rightarrow> allocation list" where
  "facilitatorsWithoutLogs s =
     filter (\<lambda>a. filter (\<lambda>l. l_allocationId l = a_id a \<and> l_isActive l) (activityLogs s) = [])
       (activeAllocations s)"

definition week_ms :: int where
  "week_ms = 7 * 24 * 60 * 60 * 1000"

definition overdueAllocations :: "time \<Rightarrow> world \<Rightarrow> allocation list" where
  "overdueAllocations now s = filter (\<lambda>a. a_createdAt a < now - week_ms) (activeAllocations s)"

text \<open>
  \<open>checkForNotifications\<close>, run at time \<open>now\<close>. Its body is one \<open>try\<close> block of
  two halves. The first sends the reminders; the result says whether it threw.
\<close>

definition send_reminders_step :: "time \<Rightarrow> world \<Rightarrow> error option \<times> world" where
  "send_reminders_step now s =
     (if facilitatorsWithoutLogs s \<noteq> [] then
        (case sendReminderToFacilitators now (facilitatorsWithoutLogs s) []
                (console_log LOG ''Sending reminders'' s) of
           (Inl e, s') \<Rightarrow> (Some e, s')
         | (Inr reminders, s') \<Rightarrow> (None, s'))
      else (None, s))"

text \<open>The second half sends the deadline alerts.\<close>

definition send_deadline_alerts_step :: "time \<Rightarrow> world \<Rightarrow> error option \<times> world" where
  "send_deadline_alerts_step now s =
     (if overdueAllocations now s \<noteq> [] then
        (case sendDeadlineAlertToManagers now (overdueAllocations now s) []
                (console_log LOG ''Sending deadline alerts'' s) of
           (Inl e, s') \<Rightarrow> (Some e, s')
         | (Inr alerts, s') \<Rightarrow> (None, s'))
      else (None, s))"

text \<open>
  An exception of either half is logged by the one \<open>catch\<close> of the block, and the
  sweep ends there.
\<close>

definition checkForNotifications :: "time \<Rightarrow> world \<Rightarrow> world" where
  "checkForNotifications now s =
     (case send_reminders_step now (console_log LOG ''Checking for notifications...'' s) of
        (Some e, s') \<Rightarrow> console_log ERROR ''Error in notification worker'' s'
      | (None, s') \<Rightarrow>
         (case send_deadline_alerts_step now s' of
            (Some e, s'') \<Rightarrow> console_log ERROR ''Error in notification worker'' s''
          | (None, s'') \<Rightarrow> console_log LOG ''Notification check completed'' s''))"

text \<open>The worker object, and the two timer primitives of the runtime.\<close>

record worker =
  isRunning :: bool
  interval :: "nat option"

definition new_worker :: worker where
  "new_worker = \<lparr>isRunning = False, interval = None\<rparr>"

definition setInterval :: "world \<Rightarrow> nat \<times> world" where
  "setInterval s = (nextTimer s, s\<lparr>timers := timers s @ [nextTimer s], nextTimer := Suc (nextTimer s)\<rparr>)"

definition clearInterval :: "nat \<Rightarrow> world \<Rightarrow> world" where
  "clearInterval h s = s\<lparr>timers := removeAll h (timers s)\<rparr>"

definition start :: "time \<Rightarrow> worker \<times> world \<Rightarrow> worker \<times> world" where
  "start now ws =
     (case ws of (w, s) \<Rightarrow>
        if isRunning w then (w, console_log LOG ''Notification worker is already running'' s)
        else
          (let w1 = w\<lparr>isRunning := True\<rparr>;
               s1 = console_log LOG ''Starting notification worker...'' s;
               s2 = checkForNotifications now s1;
               (h, s3) = setInterval s2
           in (w1\<lparr>interval := Some h\<rparr>, s3)))"

definition stop :: "worker \<times> world \<Rightarrow> worker \<times> world" where
  "stop ws =
     (case ws of (w, s) \<Rightarrow>
        if \<not> isRunning w then (w, console_log LOG ''Notification worker is not running'' s)
        else
          (let w1 = w\<lparr>isRunning := False\<rparr>;
               s1 = (case interval w1 of None \<Rightarrow> s | Some h \<Rightarrow> clearInterval h s)
           in (w1, console_log LOG ''Stopped notification worker'' s1)))"

text \<open>The handlers of \<open>SIGTERM\<close> and \<open>SIGINT\<close>.\<close>

definition on_SIGTERM :: "worker \<times> world \<Rightarrow> worker \<times> world" where
  "on_SIGTERM ws =
     (case ws of (w, s) \<Rightarrow>
        stop (w, console_log LOG ''SIGTERM received, shutting down notification worker...'' s))"

definition on_SIGINT :: "worker \<times> world \<Rightarrow> worker \<times> world" where
  "on_SIGINT ws =
     (case ws of (w, s) \<Rightarrow>
        stop (w, console_log LOG ''SIGINT received, shutting down notification worker...'' s))"

section \<open>The queue worker: \<open>workers/notificationWorker\<close> on Redis\<close>

subsection \<open>The reporting week\<close>

text \<open>
  The runtime's \<open>Date\<close>, for a process whose time zone is UTC: \<open>getFullYear\<close> of an
  instant, and the instant \<open>new Date(year, 0, 1)\<close>, by the usual computation of a civil
  date from a day count (years of 365 days, a leap day every 4 years but not every 100,
  but every 400; the count starts on 1 March of year 0).
  \<open>new Date(year, 0, 1)\<close> reads a year from 0 to 99 as a year of the twentieth century.
\<close>

definition day_ms :: int where
  "day_ms = 24 * 60 * 60 * 1000"

definition getFullYear :: "time \<Rightarrow> int" where
  "getFullYear t =
     (let z = t div day_ms + 719468;
          era = z div 146097;
          doe = z mod 146097;
          yoe = (doe - doe div 1460 + doe div 36524 - doe div 146096) div 365;
          doy = doe - (365 * yoe + yoe div 4 - yoe div 100);
          mp = (5 * doy + 2) div 153
      in yoe + era * 400 + (if mp < 10 then 0 else 1))"

definition year_start :: "int \<Rightarrow> time" where
  "year_start y =
     (let y' = (if 0 \<le> y \<and> y \<le> 99 then 1900 + y else y) - 1;
          era = y' div 400;
          yoe = y' mod 400;
          doe = yoe * 365 + yoe div 4 - yoe div 100 + 306
      in (era * 146097 + doe - 719468) * day_ms)"

text \<open>
  \<open>Math.ceil((new Date() - new Date(new Date().getFullYear(), 0, 1)) / (7 * 24 * 60 * 60 * 1000))\<close>:
  the quotient of two integers, rounded up.
\<close>

definition currentWeek :: "time \<Rightarrow> int" where
  "currentWeek now = - ((- (now - year_start (getFullYear now))) div week_ms)"

subsection \<open>\<open>checkOverdueLogs\<close>\<close>

definition lpush :: "intent \<Rightarrow> world \<Rightarrow> world" where
  "lpush i s = s\<lparr>queue := i # queue s\<rparr>"

definition rpop :: "world \<Rightarrow> intent option \<times> world" where
  "rpop s = (if queue s = [] then (None, s) else (Some (last (queue s)), s\<lparr>queue := butlast (queue s)\<rparr>))"

definition overdue_intent :: "string \<Rightarrow> int \<Rightarrow> time \<Rightarrow> allocation \<Rightarrow> intent" where
  "overdue_intent ty week now a =
     \<lparr>i_type = ty, i_facilitatorId = a_facilitatorId a, i_facilitatorName = None,
      i_allocationId = a_id a, i_weekNumber = week, i_timestamp = now\<rparr>"

text \<open>
  \<open>ActivityTracker.findOne\<close> for the allocation, the week and \<open>isActive: true\<close>.
\<close>

definition findActivityLog :: "world \<Rightarrow> uuid \<Rightarrow> int \<Rightarrow> activity_log option" where
  "findActivityLog s allocationId week =
     find (\<lambda>l. l_allocationId l = allocationId \<and> l_weekNumber l = week \<and> l_isActive l)
       (activityLogs s)"

text \<open>The \<open>for\<close> loop of \<open>checkOverdueLogs\<close> over the active allocations.\<close>

fun overdue_loop :: "int \<Rightarrow> time \<Rightarrow> allocation list \<Rightarrow> world \<Rightarrow> world" where
  "overdue_loop week now [] s = s"
| "overdue_loop week now (a # rest) s =
     (case findActivityLog s (a_id a) week of
        Some l \<Rightarrow> overdue_loop week now rest s
      | None \<Rightarrow>
         (let s1 = lpush (overdue_intent ''REMINDER_FACILITATOR'' week now a) s;
              s2 = (if week > 2 then lpush (overdue_intent ''ALERT_MANAGER'' week now a) s1 else s1)
          in overdue_loop week now rest s2))"

definition checkOverdueLogs :: "time \<Rightarrow> world \<Rightarrow> world" where
  "checkOverdueLogs now s =
     console_log LOG ''Overdue logs check completed''
       (overdue_loop (currentWeek now) now (activeAllocations s) s)"

subsection \<open>The dispatcher\<close>

text \<open>
  The mail transport: the message id when \<open>sendMail\<close> resolves, \<open>None\<close> when it (or
  the creation of the transporter) throws.
\<close>

type_synonym transport = "mail \<Rightarrow> string option"

definition subject_of :: "template \<Rightarrow> string" where
  "subject_of tp =
     (case tp of
        activityLogCreated \<Rightarrow> ''New Activity Log Submitted''
      | activityLogUpdated \<Rightarrow> ''Activity Log Updated''
      | reminderFacilitator \<Rightarrow> ''Activity Log Reminder''
      | alertManager \<Rightarrow> ''Activity Log Overdue Alert'')"

text \<open>\<open>sendEmail(to, template, data)\<close>: its \<open>success\<close> field, and the state after it.\<close>

definition sendEmail ::
  "transport \<Rightarrow> string \<Rightarrow> template \<Rightarrow> string option \<times> string \<times> int \<Rightarrow> world \<Rightarrow> bool \<times> world" where
  "sendEmail tr to tp data s =
     (let mailOptions = \<lparr>mail_to = to, mail_subject = subject_of tp, mail_html = (tp, data)\<rparr>
      in case tr mailOptions of
           Some messageId \<Rightarrow>
             (True, console_log LOG ''Email sent successfully'' (s\<lparr>outbox := outbox s @ [mailOptions]\<rparr>))
         | None \<Rightarrow> (False, console_log ERROR ''Failed to send email'' s))"

text \<open>
  The handlers include \<open>{model: Manager, as: 'manager'}\<close> in their query of the
  allocation. The models' index declares no such association of \<open>CourseAllocation\<close>, so
  the association is a parameter: \<open>None\<close> when the ORM rejects the include (the query
  throws), otherwise the manager it attaches to an allocation.
\<close>

type_synonym manager_association = "(world \<Rightarrow> allocation \<Rightarrow> manager_row option) option"

definition findAllocation :: "world \<Rightarrow> uuid \<Rightarrow> allocation option" where
  "findAllocation s ident = find (\<lambda>a. a_id a = ident) (allocations s)"

definition findFacilitator :: "world \<Rightarrow> uuid \<Rightarrow> facilitator_row option" where
  "findFacilitator s ident = find (\<lambda>f. f_id f = ident) (facilitators s)"

text \<open>
  Each handler is one \<open>try\<close> block whose \<open>catch\<close> logs: a rejected include and a
  property read of \<open>null\<close> end in the \<open>ERROR\<close> line. The result of \<open>sendEmail\<close>
  is not looked at.
\<close>

definition handleActivityLogCreated :: "transport \<Rightarrow> manager_association \<Rightarrow> intent \<Rightarrow> world \<Rightarrow> world" where
  "handleActivityLogCreated tr assoc i s =
     (case assoc of
        None \<Rightarrow> console_log ERROR ''Error handling activity log created'' s
      | Some manager_of \<Rightarrow>
         (case findAllocation s (i_allocationId i) of
            None \<Rightarrow> console_log WARN ''Allocation not found'' s
          | Some a \<Rightarrow>
             (case manager_of s a of
                None \<Rightarrow> console_log LOG ''Activity log created notification processed'' s
              | Some m \<Rightarrow>
                 if m_email m = [] then console_log LOG ''Activity log created notification processed'' s
                 else
                   (case allocation_module s a of
                      None \<Rightarrow> console_log ERROR ''Error handling activity log created'' s
                    | Some md \<Rightarrow>
                        console_log LOG ''Activity log created notification processed''
                          (snd (sendEmail tr (m_email m) activityLogCreated
                                  (i_facilitatorName i, mod_name md, i_weekNumber i) s))))))"

definition handleActivityLogUpdated :: "transport \<Rightarrow> manager_association \<Rightarrow> intent \<Rightarrow> world \<Rightarrow> world" where
  "handleActivityLogUpdated tr assoc i s =
     (case assoc of
        None \<Rightarrow> console_log ERROR ''Error handling activity log updated'' s
      | Some manager_of \<Rightarrow>
         (case findAllocation s (i_allocationId i) of
            None \<Rightarrow> console_log WARN ''Allocation not found'' s
          | Some a \<Rightarrow>
             (case manager_of s a of
                None \<Rightarrow> console_log LOG ''Activity log updated notification processed'' s
              | Some m \<Rightarrow>
                 if m_email m = [] then console_log LOG ''Activity log updated notification processed'' s
                 else
                   (case findFacilitator s (i_facilitatorId i) of
                      None \<Rightarrow> console_log ERROR ''Error handling activity log updated'' s
                    | Some f \<Rightarrow>
                       (case allocation_module s a of
                          None \<Rightarrow> console_log ERROR ''Error handling activity log updated'' s
                        | Some md \<Rightarrow>
                            console_log LOG ''Activity log updated notification processed''
                              (snd (sendEmail tr (m_email m) activityLogUpdated
                                      (Some (f_name f), mod_name md, i_weekNumber i) s)))))))"

definition handleReminderFacilitator :: "transport \<Rightarrow> intent \<Rightarrow> world \<Rightarrow> world" where
  "handleReminderFacilitator tr i s =
     (case findFacilitator s (i_facilitatorId i) of
        None \<Rightarrow> console_log WARN ''Facilitator not found'' s
      | Some f \<Rightarrow>
         (case findAllocation s (i_allocationId i) of
            None \<Rightarrow> console_log WARN ''Allocation not found'' s
          | Some a \<Rightarrow>
             (case allocation_module s a of
                None \<Rightarrow> console_log ERROR ''Error handling facilitator reminder'' s
              | Some md \<Rightarrow>
                  console_log LOG ''Reminder sent to facilitator''
                    (snd (sendEmail tr (f_email f) reminderFacilitator
                            (Some (f_name f), mod_name md, i_weekNumber i) s)))))"

definition handleAlertManager :: "transport \<Rightarrow> manager_association \<Rightarrow> intent \<Rightarrow> world \<Rightarrow> world" where
  "handleAlertManager tr assoc i s =
     (case assoc of
        None \<Rightarrow> console_log ERROR ''Error handling manager alert'' s
      | Some manager_of \<Rightarrow>
         (case findAllocation s (i_allocationId i) of
            None \<Rightarrow> console_log WARN ''Allocation not found'' s
          | Some a \<Rightarrow>
             (case manager_of s a of
                None \<Rightarrow> console_log LOG ''Alert sent to manager for overdue activity log'' s
              | Some m \<Rightarrow>
                 if m_email m = [] then console_log LOG ''Alert sent to manager for overdue activity log'' s
                 else
                   (case findFacilitator s (i_facilitatorId i) of
                      None \<Rightarrow> console_log ERROR ''Error handling manager alert'' s
                    | Some f \<Rightarrow>
                       (case allocation_module s a of
                          None \<Rightarrow> console_log ERROR ''Error handling manager alert'' s
                        | Some md \<Rightarrow>
                            console_log LOG ''Alert sent to manager for overdue activity log''
                              (snd (sendEmail tr (m_email m) alertManager
                                      (Some (f_name f), mod_name md, i_weekNumber i) s)))))))"

text \<open>\<open>processNotification\<close>: the \<open>switch\<close> on the intent's type.\<close>

definition processNotification :: "transport \<Rightarrow> manager_association \<Rightarrow> intent \<Rightarrow> world \<Rightarrow> world" where
  "processNotification tr assoc i s =
     (if i_type i = ''ACTIVITY_LOG_CREATED'' then handleActivityLogCreated tr assoc i s
      else if i_type i = ''ACTIVITY_LOG_UPDATED'' then handleActivityLogUpdated tr assoc i s
      else if i_type i = ''REMINDER_FACILITATOR'' then handleReminderFacilitator tr i s
      else if i_type i = ''ALERT_MANAGER'' then handleAlertManager tr assoc i s
      else console_log WARN ''Unknown notification type'' s)"

text \<open>
  One firing of the 30-second timer of \<open>startNotificationWorker\<close>: \<open>rpop\<close>, and the
  intent, when there is one, is processed. Nothing puts it back on the list.
\<close>

definition drain_tick :: "transport \<Rightarrow> manager_association \<Rightarrow> world \<Rightarrow> world" where
  "drain_tick tr assoc s =
     (case rpop s of
        (None, s') \<Rightarrow> s'
      | (Some i, s') \<Rightarrow> processNotification tr assoc i s')"

text \<open>
  The associations \<open>models/index.js\<close> declares for \<open>CourseAllocation\<close> are
  \<open>module\<close>, \<open>class\<close>, \<open>cohort\<close>, \<open>facilitator\<close>, \<open>mode\<close> and
  \<open>activityLogs\<close>; there is none under the alias \<open>manager\<close>. So in this repository
  the include of the handlers is rejected.
\<close>

definition repository_association :: manager_association where
  "repository_association = None"

section \<open>Notions used by the properties\<close>

text \<open>The unread reminders of the Ledger that refer to an allocation.\<close>

definition unread_reminders :: "uuid \<Rightarrow> world \<Rightarrow> notification list" where
  "unread_reminders allocationId s =
     filter (\<lambda>r. ntype r = Reminder \<and> isRead r = False \<and> relatedEntityId r = Some allocationId)
       (notifications s)"

text \<open>The reminder intents on the queue for an allocation and a week.\<close>

definition reminder_intents :: "uuid \<Rightarrow> int \<Rightarrow> world \<Rightarrow> intent list" where
  "reminder_intents allocationId week s =
     filter (\<lambda>i. i_type i = ''REMINDER_FACILITATOR'' \<and> i_allocationId i = allocationId \<and>
                 i_weekNumber i = week)
       (queue s)"

text \<open>The intents a step pushed onto the queue.\<close>

definition pushed :: "world \<Rightarrow> world \<Rightarrow> intent list" where
  "pushed s s' = take (length (queue s') - length (queue s)) (queue s')"

text \<open>
  The intents one round of the loop of \<open>checkOverdueLogs\<close> pushes for an allocation,
  the last pushed first.
\<close>

definition intents_for :: "world \<Rightarrow> int \<Rightarrow> time \<Rightarrow> allocation \<Rightarrow> intent list" where
  "intents_for s week now a =
     (if findActivityLog s (a_id a) week = None then
        (if week > 2 then
           [overdue_intent ''ALERT_MANAGER'' week now a, overdue_intent ''REMINDER_FACILITATOR'' week now a]
         else [overdue_intent ''REMINDER_FACILITATOR'' week now a])
      else [])"

text \<open>Sweeps of the database worker at the given times, one after the other.\<close>

definition sweeps :: "time list \<Rightarrow> world \<Rightarrow> world" where
  "sweeps ts s = fold checkForNotifications ts s"

text \<open>Sweeps of \<open>checkOverdueLogs\<close> at the given times, one after the other.\<close>

definition overdue_sweeps :: "time list \<Rightarrow> world \<Rightarrow> world" where
  "overdue_sweeps ts s = fold checkOverdueLogs ts s"

subsection \<open>Sample data\<close>

definition empty_world :: world where
  "empty_world =
     \<lparr>allocations = [], activityLogs = [], facilitators = [], managers = [], modules = [],
      notifications = [], nextUuid = 0, queue = [], outbox = [], console = [],
      timers = [], nextTimer = 0\<rparr>"

definition sample_notification :: notification where
  "sample_notification =
     \<lparr>nid = 1, recipientId = 7, recipientType = Facilitator, ntype = Reminder,
      title = ''Activity Log Reminder'', message = ReminderMessage 3,
      relatedEntityId = Some 3, relatedEntityType = Some Allocation,
      isRead = False, isDelivered = False, scheduledFor = None, deliveredAt = None,
      readAt = None, metadata = [(''allocationId'', JId 3)], createdAt = 5, updatedAt = 5\<rparr>"

definition sample_user :: user where
  "sample_user = \<lparr>user_id = 7, user_role = Facilitator\<rparr>"

text \<open>A Ledger table of one unread notification of user 7.\<close>

definition ledger_world :: world where
  "ledger_world = empty_world\<lparr>notifications := [sample_notification], nextUuid := 2\<rparr>"

text \<open>Two unread notifications of user 7, the second one the newer.\<close>

definition two_notifications :: world where
  "two_notifications =
     empty_world\<lparr>notifications :=
       [sample_notification, sample_notification\<lparr>nid := 2, createdAt := 9, updatedAt := 9\<rparr>],
       nextUuid := 3\<rparr>"

definition sample_query :: get_query where
  "sample_query = \<lparr>q_limit = IntLit 1, q_offset = IntLit 0, q_unreadOnly = Some ''true''\<rparr>"

text \<open>An active allocation of facilitator 11, created at time 0.\<close>

definition sweep_allocation :: allocation where
  "sweep_allocation =
     \<lparr>a_id = 1, a_moduleId = 30, a_facilitatorId = 11, a_isActive = True, a_createdAt = 0\<rparr>"

definition second_allocation :: allocation where
  "second_allocation = sweep_allocation\<lparr>a_id := 2, a_facilitatorId := 12\<rparr>"

text \<open>
  Two active allocations, both older than a week at time \<open>9 * day_ms\<close> and both without
  an activity log. The facilitator of the first has no manager; the facilitator of the
  second has manager 20.
\<close>

definition sweep_world :: world where
  "sweep_world =
     empty_world
       \<lparr>allocations := [sweep_allocation, second_allocation],
        facilitators :=
          [\<lparr>f_id = 11, f_name = ''Ada'', f_email = ''ada@example.org'', f_managerId = None\<rparr>,
           \<lparr>f_id = 12, f_name = ''Bob'', f_email = ''bob@example.org'', f_managerId = Some 20\<rparr>],
        managers := [\<lparr>m_id = 20, m_name = ''Eve'', m_email = ''eve@example.org''\<rparr>],
        modules := [\<lparr>mod_id = 30, mod_name = ''Algebra''\<rparr>]\<rparr>"


text \<open>The second allocation alone, whose facilitator has manager 20.\<close>

definition escalation_world :: world where
  "escalation_world = sweep_world\<lparr>allocations := [second_allocation]\<rparr>"

text \<open>A transport that accepts every mail.\<close>

definition accepting_transport :: transport where
  "accepting_transport = (\<lambda>m. Some ''accepted'')"

text \<open>A Ledger of one notification, and one reminder intent waiting on the queue.\<close>

definition dispatch_world :: world where
  "dispatch_world =
     sweep_world
       \<lparr>notifications := [sample_notification],
        queue := [overdue_intent ''REMINDER_FACILITATOR'' 3 0 sweep_allocation]\<rparr>"

section \<open>Properties of the Ledger\<close>

lemma Notification_is_not_exported: "''Notification'' \<notin> set models_index"
  by (simp add: models_index_def)

lemmas sample_defs = ledger_world_def empty_world_def sample_notification_def sample_user_def

lemma markAsRead_throws:
  "markAsRead now ident userId s = (Inl (undefined_call ''update''), s)"
  by (simp add: markAsRead_def Notification_update_def)

lemma markAsDelivered_throws:
  "markAsDelivered now ident s = (Inl (undefined_call ''update''), s)"
  by (simp add: markAsDelivered_def Notification_update_def)

lemma put_read_fails:
  "put_read now ident u s = (ReadFailed_500, console_log ERROR ''Failed to mark notification as read'' s)"
  by (simp add: put_read_def markAsRead_throws)

lemma put_read_all_fails:
  "put_read_all now u s = (AllFailed_500, console_log ERROR ''Failed to mark all notifications as read'' s)"
  by (simp add: put_read_all_def Notification_update_def)

lemma notifications_console_log [simp]: "notifications (console_log lv m s) = notifications s"
  by (simp add: console_log_def)

text \<open>
  C2, at a failing input. The Ledger table holds one unread notification, key 1, of user
  7. \<open>markAsRead\<close> for key 1 and user 7 throws the TypeError of the undefined binding
  \<open>Notification\<close>: it returns no count, the route answers 500, and the row is still
  unread with no \<open>readAt\<close>.
\<close>

theorem markAsRead_throws_on_the_undefined_model:
  "markAsRead 10 1 7 ledger_world = (Inl (TypeError ''update''), ledger_world) \<and>
   fst (put_read 10 1 sample_user ledger_world) = ReadFailed_500 \<and>
   notifications (snd (put_read 10 1 sample_user ledger_world)) = [sample_notification] \<and>
   isRead sample_notification = False \<and> readAt sample_notification = None"
  by (simp add: markAsRead_throws put_read_fails undefined_call_def sample_defs)

text \<open>
  C7, at a failing input. \<open>markAsDelivered\<close> for key 1, at time 10 and again at time
  20, throws the TypeError of the undefined binding \<open>Notification\<close> each time; the row
  stays undelivered with no \<open>deliveredAt\<close>.
\<close>

theorem markAsDelivered_throws_on_the_undefined_model:
  "markAsDelivered 10 1 ledger_world = (Inl (TypeError ''update''), ledger_world) \<and>
   markAsDelivered 20 1 (snd (markAsDelivered 10 1 ledger_world)) =
     (Inl (TypeError ''update''), ledger_world) \<and>
   isDelivered sample_notification = False \<and> deliveredAt sample_notification = None"
  by (simp add: markAsDelivered_throws undefined_call_def sample_defs)

text \<open>
  C10, at a failing input. \<open>PUT /read-all\<close> of user 7, who has one unread notification,
  answers 500, and so does the same request again; neither reports a count, and the row
  stays as it was.
\<close>

theorem put_read_all_answers_500:
  "fst (put_read_all 30 sample_user ledger_world) = AllFailed_500 \<and>
   fst (put_read_all 40 sample_user (snd (put_read_all 30 sample_user ledger_world))) = AllFailed_500 \<and>
   notifications (snd (put_read_all 40 sample_user (snd (put_read_all 30 sample_user ledger_world)))) =
     [sample_notification] \<and>
   isRead sample_notification = False"
  by (simp add: put_read_all_fails sample_defs)

section \<open>Properties of the listing\<close>

lemma get_notifications_rejects:
  "\<not> limit_valid (q_limit q) \<or> \<not> offset_valid (q_offset q) \<Longrightarrow>
   get_notifications q u s = (Validation_400, s)"
  by (auto simp: get_notifications_def)

lemma get_notifications_fails:
  "limit_valid (q_limit q) \<Longrightarrow> offset_valid (q_offset q) \<Longrightarrow> unreadOnly_valid (q_unreadOnly q) \<Longrightarrow>
   get_notifications q u s = (ListingFailed_500, console_log ERROR ''Failed to get notifications'' s)"
  by (simp add: get_notifications_def getUserNotifications_def Notification_findAll_def Let_def)

lemma sample_valid:
  "limit_valid (q_limit sample_query)" "offset_valid (q_offset sample_query)"
  "unreadOnly_valid (q_unreadOnly sample_query)"
  by (simp_all add: sample_query_def limit_valid_def offset_valid_def unreadOnly_valid_def)

text \<open>
  C6, at a failing input. The request \<open>limit=1\<close>, \<open>offset=0\<close>, \<open>unreadOnly=true\<close>
  of user 7, who has two unread notifications, passes the validators and is answered
  with 500: no listing and no unread count. (The same request with \<open>limit=101\<close> is
  answered with the validation error.)
\<close>

theorem listing_answers_500:
  "fst (get_notifications sample_query sample_user two_notifications) = ListingFailed_500 \<and>
   fst (get_notifications (sample_query\<lparr>q_limit := IntLit 101\<rparr>) sample_user two_notifications) =
     Validation_400"
proof -
  have "\<not> limit_valid (q_limit (sample_query\<lparr>q_limit := IntLit 101\<rparr>))"
    by (simp add: limit_valid_def)
  then have "get_notifications (sample_query\<lparr>q_limit := IntLit 101\<rparr>) sample_user two_notifications =
      (Validation_400, two_notifications)"
    by (simp add: get_notifications_rejects)
  then show ?thesis
    by (simp add: get_notifications_fails [OF sample_valid])
qed

section \<open>Properties of the sweeps\<close>

subsection \<open>What the loops return\<close>

lemma console_console_log [simp]: "console (console_log lv m s) = console s @ [(lv, m)]"
  by (simp add: console_log_def)

lemma getActivityLogs_console_log [simp]:
  "getActivityLogs (console_log lv m s) a = getActivityLogs s a"
  by (simp add: getActivityLogs_def console_log_def)

lemma facilitatorsWithoutLogs_console_log [simp]:
  "facilitatorsWithoutLogs (console_log lv m s) = facilitatorsWithoutLogs s"
  by (simp add: facilitatorsWithoutLogs_def activeAllocations_def console_log_def)

lemma overdueAllocations_console_log [simp]:
  "overdueAllocations now (console_log lv m s) = overdueAllocations now s"
  by (simp add: overdueAllocations_def activeAllocations_def console_log_def)

lemma deadline_spec_console_log [simp]:
  "deadline_spec (console_log lv m s) a = deadline_spec s a"
  by (simp add: deadline_spec_def allocation_module_def allocation_facilitator_def console_log_def
      cong: option.case_cong)

lemma createNotification_throws:
  "createNotification now sp s =
     (Inl (undefined_call ''create''), console_log ERROR ''Failed to create notification'' s)"
  by (simp add: createNotification_def Notification_create_def)

lemma sendReminder_result:
  "sendReminderToFacilitators now xs rs s =
     (if list_all (\<lambda>a. getActivityLogs s a \<noteq> []) xs then (Inr rs, s)
      else (Inl (undefined_call ''create''), console_log ERROR ''Failed to create notification'' s))"
  by (induction xs arbitrary: rs) (simp_all add: createNotification_throws)

lemma sendDeadline_result:
  "sendDeadlineAlertToManagers now (a # ys) al s =
     (case deadline_spec s a of
        Inl e \<Rightarrow> (Inl e, s)
      | Inr sp \<Rightarrow> (Inl (undefined_call ''create''), console_log ERROR ''Failed to create notification'' s))"
  by (simp add: createNotification_throws split: sum.splits)

lemma send_reminders_step_result:
  "send_reminders_step now s =
     (if facilitatorsWithoutLogs s = [] then (None, s)
      else if list_all (\<lambda>a. getActivityLogs s a \<noteq> []) (facilitatorsWithoutLogs s)
      then (None, console_log LOG ''Sending reminders'' s)
      else (Some (undefined_call ''create''),
            console_log ERROR ''Failed to create notification'' (console_log LOG ''Sending reminders'' s)))"
  by (simp add: send_reminders_step_def sendReminder_result)

lemma send_deadline_alerts_step_result:
  "send_deadline_alerts_step now s =
     (case overdueAllocations now s of
        [] \<Rightarrow> (None, s)
      | a # ys \<Rightarrow>
         (case deadline_spec s a of
            Inl e \<Rightarrow> (Some e, console_log LOG ''Sending deadline alerts'' s)
          | Inr sp \<Rightarrow>
              (Some (undefined_call ''create''),
               console_log ERROR ''Failed to create notification''
                 (console_log LOG ''Sending deadline alerts'' s))))"
  by (simp add: send_deadline_alerts_step_def createNotification_throws split: list.splits sum.splits)

lemma console_log_is_update: "console_log lv m s = s\<lparr>console := console s @ [(lv, m)]\<rparr>"
  by (simp add: console_log_def)

lemma sweep_changes_console_only:
  "checkForNotifications now s = s\<lparr>console := console (checkForNotifications now s)\<rparr>"
  by (simp add: checkForNotifications_def send_reminders_step_result
      send_deadline_alerts_step_result console_log_is_update split: list.splits sum.splits)

lemma sweep_keeps_ledger: "notifications (checkForNotifications now s) = notifications s"
  by (subst sweep_changes_console_only) simp

lemma sweeps_keep_ledger: "notifications (sweeps ts s) = notifications s"
  by (induction ts arbitrary: s) (simp_all add: sweeps_def sweep_keeps_ledger)

subsection \<open>A failing allocation\<close>








section \<open>Properties of the worker\<close>

lemma timers_console_log [simp]: "timers (console_log lv m s) = timers s"
  by (simp add: console_log_def)

lemma nextTimer_console_log [simp]: "nextTimer (console_log lv m s) = nextTimer s"
  by (simp add: console_log_def)

lemma sweep_keeps_timers:
  "timers (checkForNotifications now s) = timers s \<and> nextTimer (checkForNotifications now s) = nextTimer s"
proof
  show "timers (checkForNotifications now s) = timers s"
    by (subst sweep_changes_console_only) simp
  show "nextTimer (checkForNotifications now s) = nextTimer s"
    by (subst sweep_changes_console_only) simp
qed

lemma start_when_stopped:
  assumes "\<not> isRunning w"
  shows "isRunning (fst (start now (w, s))) \<and>
         interval (fst (start now (w, s))) = Some (nextTimer s) \<and>
         timers (snd (start now (w, s))) = timers s @ [nextTimer s]"
  using assms sweep_keeps_timers [of now "console_log LOG ''Starting notification worker...'' s"]
  by (simp add: start_def setInterval_def Let_def)

lemma start_when_running:
  "isRunning w \<Longrightarrow> start now (w, s) = (w, console_log LOG ''Notification worker is already running'' s)"
  by (simp add: start_def)

lemma stop_when_running:
  assumes "isRunning w"
  shows "\<not> isRunning (fst (stop (w, s))) \<and>
         timers (snd (stop (w, s))) =
           (case interval w of None \<Rightarrow> timers s | Some h \<Rightarrow> removeAll h (timers s))"
  using assms by (simp add: stop_def clearInterval_def Let_def split: option.splits)

lemma stop_when_stopped:
  "\<not> isRunning w \<Longrightarrow> stop (w, s) = (w, console_log LOG ''Notification worker is not running'' s)"
  by (simp add: stop_def)

text \<open>
  C8. \<open>start\<close> on a stopped worker sets \<open>isRunning\<close> and registers one interval
  timer; on a running worker it only logs that the worker is already running, and no
  timer is added. \<open>stop\<close> and the two signal handlers on a running worker clear
  \<open>isRunning\<close> and cancel the worker's timer; \<open>stop\<close> on a stopped worker only logs
  that the worker is not running.
\<close>

theorem worker_state_machine:
  "(\<not> isRunning w \<longrightarrow>
      isRunning (fst (start now (w, s))) \<and>
      interval (fst (start now (w, s))) = Some (nextTimer s) \<and>
      timers (snd (start now (w, s))) = timers s @ [nextTimer s]) \<and>
   (isRunning w \<longrightarrow>
      start now (w, s) = (w, console_log LOG ''Notification worker is already running'' s) \<and>
      timers (snd (start now (w, s))) = timers s) \<and>
   (isRunning w \<longrightarrow>
      \<not> isRunning (fst (stop (w, s))) \<and>
      \<not> isRunning (fst (on_SIGTERM (w, s))) \<and>
      \<not> isRunning (fst (on_SIGINT (w, s))) \<and>
      timers (snd (stop (w, s))) =
        (case interval w of None \<Rightarrow> timers s | Some h \<Rightarrow> removeAll h (timers s)) \<and>
      timers (snd (on_SIGTERM (w, s))) = timers (snd (stop (w, s))) \<and>
      timers (snd (on_SIGINT (w, s))) = timers (snd (stop (w, s)))) \<and>
   (\<not> isRunning w \<longrightarrow>
      stop (w, s) = (w, console_log LOG ''Notification worker is not running'' s) \<and>
      timers (snd (stop (w, s))) = timers s)"
proof (intro conjI impI)
  assume r: "isRunning w"
  let ?t = "console_log LOG ''SIGTERM received, shutting down notification worker...'' s"
  let ?i = "console_log LOG ''SIGINT received, shutting down notification worker...'' s"
  show "\<not> isRunning (fst (stop (w, s)))" using stop_when_running [OF r] by simp
  show "\<not> isRunning (fst (on_SIGTERM (w, s)))"
    using stop_when_running [OF r, of ?t] by (simp add: on_SIGTERM_def)
  show "\<not> isRunning (fst (on_SIGINT (w, s)))"
    using stop_when_running [OF r, of ?i] by (simp add: on_SIGINT_def)
  show "timers (snd (stop (w, s))) =
        (case interval w of None \<Rightarrow> timers s | Some h \<Rightarrow> removeAll h (timers s))"
    using stop_when_running [OF r] by simp
  show "timers (snd (on_SIGTERM (w, s))) = timers (snd (stop (w, s)))"
    using stop_when_running [OF r, of ?t] stop_when_running [OF r, of s]
    by (simp add: on_SIGTERM_def split: option.splits)
  show "timers (snd (on_SIGINT (w, s))) = timers (snd (stop (w, s)))"
    using stop_when_running [OF r, of ?i] stop_when_running [OF r, of s]
    by (simp add: on_SIGINT_def split: option.splits)
  show "start now (w, s) = (w, console_log LOG ''Notification worker is already running'' s)"
    by (rule start_when_running [OF r])
  show "timers (snd (start now (w, s))) = timers s"
    by (simp add: start_when_running [OF r])
next
  assume n: "\<not> isRunning w"
  show "isRunning (fst (start now (w, s)))" using start_when_stopped [OF n] by simp
  show "interval (fst (start now (w, s))) = Some (nextTimer s)" using start_when_stopped [OF n] by simp
  show "timers (snd (start now (w, s))) = timers s @ [nextTimer s]" using start_when_stopped [OF n] by simp
  show "stop (w, s) = (w, console_log LOG ''Notification worker is not running'' s)"
    by (rule stop_when_stopped [OF n])
  show "timers (snd (stop (w, s))) = timers s"
    by (simp add: stop_when_stopped [OF n])
qed

text \<open>
  Witness of C8: a new worker is started (timer 0), started again (still one timer),
  and stopped (no timer); \<open>stop\<close> on the new worker changes no timer.
\<close>

theorem worker_state_machine_witness:
  "isRunning (fst (start 0 (new_worker, empty_world))) \<and>
   timers (snd (start 0 (new_worker, empty_world))) = [0] \<and>
   timers (snd (start 5 (start 0 (new_worker, empty_world)))) = [0] \<and>
   \<not> isRunning (fst (stop (start 0 (new_worker, empty_world)))) \<and>
   timers (snd (stop (start 0 (new_worker, empty_world)))) = [] \<and>
   timers (snd (stop (new_worker, empty_world))) = []"
proof -
  obtain w1 s1 where st: "start 0 (new_worker, empty_world) = (w1, s1)"
    by (cases "start 0 (new_worker, empty_world)")
  have a: "isRunning w1 \<and> interval w1 = Some 0 \<and> timers s1 = [0]"
    using worker_state_machine [of new_worker 0 empty_world] st
    by (simp add: new_worker_def empty_world_def)
  have b: "timers (snd (start 5 (w1, s1))) = timers s1"
    using worker_state_machine [of w1 5 s1] a by simp
  have c: "\<not> isRunning (fst (stop (w1, s1))) \<and> timers (snd (stop (w1, s1))) = []"
    using worker_state_machine [of w1 5 s1] a by simp
  have d: "timers (snd (stop (new_worker, empty_world))) = []"
    using worker_state_machine [of new_worker 0 empty_world]
    by (simp add: new_worker_def empty_world_def)
  from a b c d show ?thesis by (simp add: st)
qed

section \<open>Properties of the queue worker\<close>

subsection \<open>The reporting week\<close>

text \<open>
  C9, at a failing input: at 2026-01-01T00:00:00.000 the difference to the start of the
  year is 0 milliseconds, and the week the sweep computes is 0, not 1.
\<close>

theorem week_zero_at_the_start_of_the_year:
  "getFullYear 1767225600000 = 2026 \<and> year_start 2026 = 1767225600000 \<and>
   currentWeek 1767225600000 = 0"
  by code_simp

lemma week_of_sample_instants:
  "currentWeek 1767225600001 = 1" "currentWeek 1768435200001 = 3"
  by code_simp+

lemma week_positive_after_the_start:
  "year_start (getFullYear now) < now \<Longrightarrow> 1 \<le> currentWeek now"
proof -
  assume "year_start (getFullYear now) < now"
  then have "- (now - year_start (getFullYear now)) < 0" by simp
  then have "(- (now - year_start (getFullYear now))) div week_ms < 0"
    by (simp add: week_ms_def div_neg_pos_less0)
  then show ?thesis by (simp add: currentWeek_def)
qed

subsection \<open>The intents of a sweep\<close>

lemma findActivityLog_lpush [simp]: "findActivityLog (lpush i s) k w = findActivityLog s k w"
  by (simp add: findActivityLog_def lpush_def)

lemma intents_for_lpush [simp]: "intents_for (lpush i s) w now a = intents_for s w now a"
  by (simp add: intents_for_def)

lemma queue_lpush [simp]: "queue (lpush i s) = i # queue s"
  by (simp add: lpush_def)

lemma notifications_lpush [simp]: "notifications (lpush i s) = notifications s"
  by (simp add: lpush_def)

lemma overdue_loop_queue:
  "queue (overdue_loop w now xs s) = concat (rev (map (intents_for s w now) xs)) @ queue s \<and>
   notifications (overdue_loop w now xs s) = notifications s"
proof (induction xs arbitrary: s)
  case Nil
  show ?case by simp
next
  case (Cons a xs)
  show ?case
  proof (cases "findActivityLog s (a_id a) w")
    case (Some l)
    then show ?thesis using Cons.IH [of s] by (simp add: intents_for_def)
  next
    case None
    let ?s1 = "lpush (overdue_intent ''REMINDER_FACILITATOR'' w now a) s"
    show ?thesis
    proof (cases "w > 2")
      case True
      let ?s2 = "lpush (overdue_intent ''ALERT_MANAGER'' w now a) ?s1"
      have "overdue_loop w now (a # xs) s = overdue_loop w now xs ?s2"
        using None True by (simp add: Let_def)
      moreover have "intents_for s w now a =
          [overdue_intent ''ALERT_MANAGER'' w now a, overdue_intent ''REMINDER_FACILITATOR'' w now a]"
        using None True by (simp add: intents_for_def)
      moreover have "map (intents_for ?s2 w now) xs = map (intents_for s w now) xs"
        by simp
      ultimately show ?thesis using Cons.IH [of ?s2] by simp
    next
      case False
      have "overdue_loop w now (a # xs) s = overdue_loop w now xs ?s1"
        using None False by (simp add: Let_def)
      moreover have "intents_for s w now a = [overdue_intent ''REMINDER_FACILITATOR'' w now a]"
        using None False by (simp add: intents_for_def)
      moreover have "map (intents_for ?s1 w now) xs = map (intents_for s w now) xs"
        by simp
      ultimately show ?thesis using Cons.IH [of ?s1] by simp
    qed
  qed
qed

lemma intents_for_allocation:
  "i \<in> set (intents_for s w now x) \<Longrightarrow> i_allocationId i = a_id x"
  by (auto simp: intents_for_def overdue_intent_def split: if_splits)

lemma filter_intents_other:
  "a_id x \<noteq> k \<Longrightarrow> filter (\<lambda>i. i_allocationId i = k) (intents_for s w now x) = []"
  by (auto simp: filter_empty_conv dest: intents_for_allocation)

lemma filter_intents_same:
  "filter (\<lambda>i. i_allocationId i = a_id x) (intents_for s w now x) = intents_for s w now x"
  by (auto simp: filter_id_conv dest: intents_for_allocation)

lemma filter_pushed:
  "distinct (map a_id xs) \<Longrightarrow> a \<in> set xs \<Longrightarrow>
   filter (\<lambda>i. i_allocationId i = a_id a) (concat (rev (map (intents_for s w now) xs))) =
     intents_for s w now a"
proof (induction xs)
  case Nil
  then show ?case by simp
next
  case (Cons x xs)
  show ?case
  proof (cases "x = a")
    case True
    from Cons.prems(1) True have "\<forall>y \<in> set xs. a_id y \<noteq> a_id a" by (auto simp: image_iff)
    then have "filter (\<lambda>i. i_allocationId i = a_id a) (concat (rev (map (intents_for s w now) xs))) = []"
      by (auto simp: filter_empty_conv dest: intents_for_allocation)
    with True show ?thesis by (simp add: filter_intents_same)
  next
    case False
    with Cons.prems have "a \<in> set xs" "a_id x \<noteq> a_id a" "distinct (map a_id xs)" by auto
    with Cons.IH show ?thesis by (simp add: filter_intents_other)
  qed
qed

lemma checkOverdueLogs_pushed:
  "pushed s (checkOverdueLogs now s) =
     concat (rev (map (intents_for s (currentWeek now) now) (activeAllocations s)))"
  by (simp add: pushed_def checkOverdueLogs_def console_log_def overdue_loop_queue)

lemma escalation:
  assumes "distinct (map a_id (allocations s))" "a \<in> set (allocations s)" "a_isActive a"
    "findActivityLog s (a_id a) (currentWeek now) = None"
  shows "filter (\<lambda>i. i_allocationId i = a_id a) (pushed s (checkOverdueLogs now s)) =
           (if currentWeek now > 2 then
              [overdue_intent ''ALERT_MANAGER'' (currentWeek now) now a,
               overdue_intent ''REMINDER_FACILITATOR'' (currentWeek now) now a]
            else [overdue_intent ''REMINDER_FACILITATOR'' (currentWeek now) now a])"
proof -
  have d: "distinct (map a_id (activeAllocations s))"
    using assms(1) by (simp add: activeAllocations_def distinct_map_filter)
  have m: "a \<in> set (activeAllocations s)"
    using assms(2,3) by (simp add: activeAllocations_def)
  show ?thesis
    unfolding checkOverdueLogs_pushed filter_pushed [OF d m]
    using assms(4) by (simp add: intents_for_def)
qed

subsection \<open>Repeated sweeps\<close>

lemma overdue_loop_tables:
  "allocations (overdue_loop w now xs s) = allocations s \<and>
   activityLogs (overdue_loop w now xs s) = activityLogs s"
  by (induction xs arbitrary: s) (simp_all add: lpush_def Let_def split: option.splits)

lemma checkOverdueLogs_tables:
  "allocations (checkOverdueLogs now s) = allocations s \<and>
   activityLogs (checkOverdueLogs now s) = activityLogs s \<and>
   notifications (checkOverdueLogs now s) = notifications s"
  by (simp add: checkOverdueLogs_def console_log_def overdue_loop_tables overdue_loop_queue)

lemma checkOverdueLogs_queue:
  "queue (checkOverdueLogs now s) = pushed s (checkOverdueLogs now s) @ queue s"
  by (simp add: checkOverdueLogs_pushed)
     (simp add: checkOverdueLogs_def console_log_def overdue_loop_queue)

lemma reminder_of_pushed:
  "filter (\<lambda>i. i_type i = ''REMINDER_FACILITATOR'' \<and> i_weekNumber i = w)
     (if w > 2 then
        [overdue_intent ''ALERT_MANAGER'' w now a, overdue_intent ''REMINDER_FACILITATOR'' w now a]
      else [overdue_intent ''REMINDER_FACILITATOR'' w now a]) =
   [overdue_intent ''REMINDER_FACILITATOR'' w now a]"
  by (simp add: overdue_intent_def)

lemma sweep_pushes_one_reminder:
  assumes "distinct (map a_id (allocations s))" "a \<in> set (allocations s)" "a_isActive a"
    "findActivityLog s (a_id a) (currentWeek now) = None"
  shows "reminder_intents (a_id a) (currentWeek now) (checkOverdueLogs now s) =
           overdue_intent ''REMINDER_FACILITATOR'' (currentWeek now) now a #
           reminder_intents (a_id a) (currentWeek now) s"
proof -
  let ?w = "currentWeek now"
  let ?P = "\<lambda>i. i_type i = ''REMINDER_FACILITATOR'' \<and> i_allocationId i = a_id a \<and> i_weekNumber i = ?w"
  have split: "\<And>xs. filter ?P xs =
      filter (\<lambda>i. i_type i = ''REMINDER_FACILITATOR'' \<and> i_weekNumber i = ?w)
        (filter (\<lambda>i. i_allocationId i = a_id a) xs)"
    by (simp add: conj_commute conj_left_commute)
  have "filter ?P (pushed s (checkOverdueLogs now s)) =
        [overdue_intent ''REMINDER_FACILITATOR'' ?w now a]"
    unfolding split escalation [OF assms] by (rule reminder_of_pushed)
  then show ?thesis
    unfolding reminder_intents_def checkOverdueLogs_queue [of now s] filter_append by simp
qed

lemma sweeps_push_reminders:
  assumes "distinct (map a_id (allocations s))" "a \<in> set (allocations s)" "a_isActive a"
    "findActivityLog s (a_id a) w = None" "list_all (\<lambda>t. currentWeek t = w) ts"
  shows "length (reminder_intents (a_id a) w (overdue_sweeps ts s)) =
         length (reminder_intents (a_id a) w s) + length ts"
  using assms
proof (induction ts arbitrary: s)
  case Nil
  show ?case by (simp add: overdue_sweeps_def)
next
  case (Cons t ts)
  let ?s' = "checkOverdueLogs t s"
  from Cons.prems(5) have w: "currentWeek t = w" and rest: "list_all (\<lambda>t. currentWeek t = w) ts"
    by simp_all
  have tb: "allocations ?s' = allocations s" "activityLogs ?s' = activityLogs s"
    using checkOverdueLogs_tables [of t s] by simp_all
  have fa: "findActivityLog ?s' (a_id a) w = None"
    using Cons.prems(4) by (simp add: findActivityLog_def tb)
  have "length (reminder_intents (a_id a) w (overdue_sweeps ts ?s')) =
        length (reminder_intents (a_id a) w ?s') + length ts"
    by (rule Cons.IH) (simp_all add: tb fa rest Cons.prems)
  moreover have "overdue_sweeps (t # ts) s = overdue_sweeps ts ?s'"
    by (simp add: overdue_sweeps_def)
  moreover have "reminder_intents (a_id a) w ?s' =
      overdue_intent ''REMINDER_FACILITATOR'' w t a # reminder_intents (a_id a) w s"
    using sweep_pushes_one_reminder [OF Cons.prems(1,2,3), of t] Cons.prems(4) by (simp add: w)
  ultimately show ?case by simp
qed

lemma week_one_instants:
  "currentWeek 1767225600002 = 1" "currentWeek 1767225600003 = 1"
  by code_simp+

lemma sweep_world_facts:
  "distinct (map a_id (allocations sweep_world))"
  "sweep_allocation \<in> set (allocations sweep_world)"
  "a_isActive sweep_allocation"
  "findActivityLog sweep_world (a_id sweep_allocation) 1 = None"
  by (simp_all add: sweep_world_def second_allocation_def empty_world_def sweep_allocation_def
      findActivityLog_def)

lemma sweep_world_ledger: "notifications sweep_world = []" "queue sweep_world = []"
  by (simp_all add: sweep_world_def empty_world_def)

text \<open>
  C1 as stated fails. Allocation 1 is active and has no activity log. After two sweeps
  of \<open>checkOverdueLogs\<close> in week 1 the queue holds two reminder intents for allocation 1
  and week 1, and after two sweeps of the database worker the Ledger holds no unread
  reminder for it: in neither case exactly one.
\<close>

theorem two_sweeps_two_reminders:
  "length (reminder_intents 1 1 (overdue_sweeps [1767225600001, 1767225600002] sweep_world)) = 2 \<and>
   unread_reminders 1 (sweeps [100, 200] sweep_world) = []"
proof -
  have "list_all (\<lambda>t. currentWeek t = 1) [1767225600001, 1767225600002]"
    by (simp add: week_of_sample_instants week_one_instants)
  from sweeps_push_reminders [OF sweep_world_facts this]
  have "length (reminder_intents 1 1 (overdue_sweeps [1767225600001, 1767225600002] sweep_world)) = 2"
    by (simp add: sweep_allocation_def reminder_intents_def sweep_world_ledger)
  then show ?thesis
    by (simp add: unread_reminders_def sweeps_keep_ledger sweep_world_ledger)
qed

text \<open>
  C1, amended. The Scanner makes no check of the Ledger before it emits a reminder: for
  an active allocation without an active log of the week, every sweep of
  \<open>checkOverdueLogs\<close> in that week pushes one more reminder intent for the allocation
  and the week, so \<open>n\<close> sweeps leave \<open>n\<close> more than before (none taken off the queue in
  between).
\<close>

theorem every_sweep_pushes_a_reminder:
  assumes "distinct (map a_id (allocations s))" "a \<in> set (allocations s)" "a_isActive a"
    "findActivityLog s (a_id a) w = None" "list_all (\<lambda>t. currentWeek t = w) ts"
  shows "length (reminder_intents (a_id a) w (overdue_sweeps ts s)) =
         length (reminder_intents (a_id a) w s) + length ts"
  using assms by (rule sweeps_push_reminders)

text \<open>Witness of C1, amended: three sweeps in week 1, three reminder intents for allocation 1.\<close>

theorem every_sweep_pushes_a_reminder_witness:
  "length (reminder_intents 1 1
     (overdue_sweeps [1767225600001, 1767225600002, 1767225600003] sweep_world)) = 3"
proof -
  have "list_all (\<lambda>t. currentWeek t = 1) [1767225600001, 1767225600002, 1767225600003]"
    by (simp add: week_of_sample_instants week_one_instants)
  from every_sweep_pushes_a_reminder [OF sweep_world_facts this]
  show ?thesis
    by (simp add: sweep_allocation_def reminder_intents_def sweep_world_ledger)
qed

subsection \<open>The alert of a sweep at the dispatcher\<close>

text \<open>
  C4, at a failing input. Allocation 2 is active and has no activity log; its facilitator
  (Bob) has manager 20 (Eve). The sweep of \<open>checkOverdueLogs\<close> in week 3 of 2026 pushes
  the reminder and the alert for it. The worker then takes both off the queue, with a
  transport that accepts every mail: the reminder is mailed to the facilitator; for the
  alert the handler's query is rejected (no association \<open>manager\<close>), the \<open>catch\<close>
  logs, and no mail goes to the manager. With a transport that fails, no mail goes out at
  all.
\<close>

theorem alert_is_not_mailed_to_the_manager:
  "map i_type (queue (checkOverdueLogs 1768435200001 escalation_world)) =
     [''ALERT_MANAGER'', ''REMINDER_FACILITATOR''] \<and>
   map mail_to
     (outbox (drain_tick accepting_transport repository_association
        (drain_tick accepting_transport repository_association
           (checkOverdueLogs 1768435200001 escalation_world)))) = [''bob@example.org''] \<and>
   queue (drain_tick accepting_transport repository_association
        (drain_tick accepting_transport repository_association
           (checkOverdueLogs 1768435200001 escalation_world))) = [] \<and>
   last (console (drain_tick accepting_transport repository_association
        (drain_tick accepting_transport repository_association
           (checkOverdueLogs 1768435200001 escalation_world)))) =
     (ERROR, ''Error handling manager alert'') \<and>
   outbox (drain_tick (\<lambda>m. None) repository_association
        (drain_tick (\<lambda>m. None) repository_association
           (checkOverdueLogs 1768435200001 escalation_world))) = []"
  by code_simp

subsection \<open>The dispatcher\<close>

lemma sendEmail_keeps:
  "notifications (snd (sendEmail tr to tp d s)) = notifications s \<and>
   queue (snd (sendEmail tr to tp d s)) = queue s"
  by (simp add: sendEmail_def console_log_def Let_def split: option.splits)

lemma sendEmail_failed:
  "tr = (\<lambda>m. None) \<Longrightarrow> outbox (snd (sendEmail tr to tp d s)) = outbox s"
  by (simp add: sendEmail_def console_log_def Let_def)

lemma queue_console_log [simp]: "queue (console_log lv m s) = queue s"
  by (simp add: console_log_def)

lemma outbox_console_log [simp]: "outbox (console_log lv m s) = outbox s"
  by (simp add: console_log_def)

lemma handlers_keep:
  "notifications (handleActivityLogCreated tr assoc i s) = notifications s \<and>
   queue (handleActivityLogCreated tr assoc i s) = queue s"
  "notifications (handleActivityLogUpdated tr assoc i s) = notifications s \<and>
   queue (handleActivityLogUpdated tr assoc i s) = queue s"
  "notifications (handleReminderFacilitator tr i s) = notifications s \<and>
   queue (handleReminderFacilitator tr i s) = queue s"
  "notifications (handleAlertManager tr assoc i s) = notifications s \<and>
   queue (handleAlertManager tr assoc i s) = queue s"
  by (simp_all add: handleActivityLogCreated_def handleActivityLogUpdated_def
      handleReminderFacilitator_def handleAlertManager_def sendEmail_keeps split: option.splits)

lemma handlers_failed:
  assumes "tr = (\<lambda>m. None)"
  shows "outbox (handleActivityLogCreated tr assoc i s) = outbox s"
        "outbox (handleActivityLogUpdated tr assoc i s) = outbox s"
        "outbox (handleReminderFacilitator tr i s) = outbox s"
        "outbox (handleAlertManager tr assoc i s) = outbox s"
  by (simp_all add: handleActivityLogCreated_def handleActivityLogUpdated_def
      handleReminderFacilitator_def handleAlertManager_def sendEmail_failed [OF assms]
      split: option.splits)

lemma processNotification_keeps:
  "notifications (processNotification tr assoc i s) = notifications s \<and>
   queue (processNotification tr assoc i s) = queue s"
  by (simp add: processNotification_def handlers_keep)

lemma processNotification_failed:
  "tr = (\<lambda>m. None) \<Longrightarrow> outbox (processNotification tr assoc i s) = outbox s"
  by (simp add: processNotification_def handlers_failed)

lemma drain_tick_keeps:
  "notifications (drain_tick tr assoc s) = notifications s \<and>
   queue (drain_tick tr assoc s) = butlast (queue s)"
  by (simp add: drain_tick_def rpop_def processNotification_keeps)

lemma drain_tick_failed:
  "tr = (\<lambda>m. None) \<Longrightarrow> outbox (drain_tick tr assoc s) = outbox s"
  by (simp add: drain_tick_def rpop_def processNotification_failed)

text \<open>
  C5. One firing of the drain timer takes the last intent off the queue and puts nothing
  back; whatever the transport answers, the Ledger is left exactly as it was (no row is
  marked delivered, marked read or deleted: the dispatcher never calls
  \<open>markAsDelivered\<close>); when the transport fails, no mail is recorded as sent.
\<close>

theorem failed_transport_leaves_the_ledger:
  "notifications (drain_tick tr assoc s) = notifications s \<and>
   queue (drain_tick tr assoc s) = butlast (queue s) \<and>
   (tr = (\<lambda>m. None) \<longrightarrow> outbox (drain_tick tr assoc s) = outbox s)"
  using drain_tick_keeps [of tr assoc s] drain_tick_failed [of tr assoc s] by simp

lemma dispatch_world_attempt:
  "last (butlast (console (drain_tick (\<lambda>m. None) None dispatch_world))) = (ERROR, ''Failed to send email'')"
  by (simp add: drain_tick_def rpop_def dispatch_world_def sweep_world_def second_allocation_def empty_world_def
      processNotification_def overdue_intent_def handleReminderFacilitator_def findFacilitator_def
      findAllocation_def allocation_module_def sweep_allocation_def sendEmail_def console_log_def)

text \<open>
  Witness of C5: the transport fails on the reminder intent; the attempt is logged, the
  queue is empty, and the Ledger still holds its notification, undelivered and unread.
\<close>

theorem failed_transport_leaves_the_ledger_witness:
  "notifications (drain_tick (\<lambda>m. None) None dispatch_world) = [sample_notification] \<and>
   isDelivered sample_notification = False \<and> isRead sample_notification = False \<and>
   queue (drain_tick (\<lambda>m. None) None dispatch_world) = [] \<and>
   outbox (drain_tick (\<lambda>m. None) None dispatch_world) = [] \<and>
   last (butlast (console (drain_tick (\<lambda>m. None) None dispatch_world))) = (ERROR, ''Failed to send email'')"
  using failed_transport_leaves_the_ledger [of "\<lambda>m. None" None dispatch_world] dispatch_world_attempt
  by (simp add: dispatch_world_def sweep_world_def second_allocation_def empty_world_def sample_notification_def)

end
